theory Spec2Isabelle
  imports Complex_Main "HOL-Library.Monad_Syntax"
begin

section \<open>Rotation matrix to quaternion (src/core.py, \<open>EasySLAM._matrix_to_quaternion\<close>)\<close>

text \<open>
  The argument \<open>R\<close> is the 3x3 block \<open>pose[:3, :3]\<close> of a numpy array, read by the code
  through \<open>R[i, j]\<close>. It is modelled as a record of its nine entries, over the reals.
  The result is \<open>np.array([w, x, y, z])\<close>, modelled as a 4-tuple.
\<close>

record mat3 =
  r00 :: real
  r01 :: real
  r02 :: real
  r10 :: real
  r11 :: real
  r12 :: real
  r20 :: real
  r21 :: real
  r22 :: real

type_synonym quat = "real \<times> real \<times> real \<times> real"

text \<open>
  numpy does not raise on a float division by zero or on the square root of a negative
  number: it yields \<open>inf\<close> or \<open>nan\<close>. Both are the value \<open>None\<close> here, so a result
  \<open>Some q\<close> says that every operation of the run was defined.
\<close>

definition np_sqrt :: "real \<Rightarrow> real option" where
  "np_sqrt v = (if v < 0 then None else Some (sqrt v))"

definition np_div :: "real \<Rightarrow> real \<Rightarrow> real option" where
  "np_div p s = (if s = 0 then None else Some (p / s))"

definition np_trace :: "mat3 \<Rightarrow> real" where
  "np_trace R = r00 R + r11 R + r22 R"

text \<open>The four branches of the conversion, in the order of the source (lines 421 to 444).\<close>

definition trace_case :: "mat3 \<Rightarrow> quat option" where
  "trace_case R = do {
     t \<leftarrow> np_sqrt (np_trace R + 1.0);
     let S = t * 2;
     let w = 0.25 * S;
     x \<leftarrow> np_div (r21 R - r12 R) S;
     y \<leftarrow> np_div (r02 R - r20 R) S;
     z \<leftarrow> np_div (r10 R - r01 R) S;
     Some (w, x, y, z)
   }"

definition diag_x_case :: "mat3 \<Rightarrow> quat option" where
  "diag_x_case R = do {
     t \<leftarrow> np_sqrt (1.0 + r00 R - r11 R - r22 R);
     let S = t * 2;
     w \<leftarrow> np_div (r21 R - r12 R) S;
     let x = 0.25 * S;
     y \<leftarrow> np_div (r01 R + r10 R) S;
     z \<leftarrow> np_div (r02 R + r20 R) S;
     Some (w, x, y, z)
   }"

definition diag_y_case :: "mat3 \<Rightarrow> quat option" where
  "diag_y_case R = do {
     t \<leftarrow> np_sqrt (1.0 + r11 R - r00 R - r22 R);
     let S = t * 2;
     w \<leftarrow> np_div (r02 R - r20 R) S;
     x \<leftarrow> np_div (r01 R + r10 R) S;
     let y = 0.25 * S;
     z \<leftarrow> np_div (r12 R + r21 R) S;
     Some (w, x, y, z)
   }"

definition diag_z_case :: "mat3 \<Rightarrow> quat option" where
  "diag_z_case R = do {
     t \<leftarrow> np_sqrt (1.0 + r22 R - r00 R - r11 R);
     let S = t * 2;
     w \<leftarrow> np_div (r10 R - r01 R) S;
     x \<leftarrow> np_div (r02 R + r20 R) S;
     y \<leftarrow> np_div (r12 R + r21 R) S;
     let z = 0.25 * S;
     Some (w, x, y, z)
   }"

definition matrix_to_quaternion :: "mat3 \<Rightarrow> quat option" where
  "matrix_to_quaternion R =
     (if np_trace R > 0 then trace_case R
      else if r00 R > r11 R \<and> r00 R > r22 R then diag_x_case R
      else if r11 R > r22 R then diag_y_case R
      else diag_z_case R)"





text \<open>
  What the claim is measured against: a proper rotation matrix has orthonormal columns
  and determinant 1; the rotation of a quaternion \<open>[w, x, y, z]\<close> is the usual matrix.
\<close>

definition mat_transpose :: "mat3 \<Rightarrow> mat3" where
  "mat_transpose R =
     \<lparr>r00 = r00 R, r01 = r10 R, r02 = r20 R,
      r10 = r01 R, r11 = r11 R, r12 = r21 R,
      r20 = r02 R, r21 = r12 R, r22 = r22 R\<rparr>"

definition mat_mul :: "mat3 \<Rightarrow> mat3 \<Rightarrow> mat3" where
  "mat_mul A B =
     \<lparr>r00 = r00 A * r00 B + r01 A * r10 B + r02 A * r20 B,
      r01 = r00 A * r01 B + r01 A * r11 B + r02 A * r21 B,
      r02 = r00 A * r02 B + r01 A * r12 B + r02 A * r22 B,
      r10 = r10 A * r00 B + r11 A * r10 B + r12 A * r20 B,
      r11 = r10 A * r01 B + r11 A * r11 B + r12 A * r21 B,
      r12 = r10 A * r02 B + r11 A * r12 B + r12 A * r22 B,
      r20 = r20 A * r00 B + r21 A * r10 B + r22 A * r20 B,
      r21 = r20 A * r01 B + r21 A * r11 B + r22 A * r21 B,
      r22 = r20 A * r02 B + r21 A * r12 B + r22 A * r22 B\<rparr>"

definition mat_identity :: mat3 where
  "mat_identity =
     \<lparr>r00 = 1, r01 = 0, r02 = 0, r10 = 0, r11 = 1, r12 = 0, r20 = 0, r21 = 0, r22 = 1\<rparr>"

definition det3 :: "mat3 \<Rightarrow> real" where
  "det3 R = r00 R * (r11 R * r22 R - r12 R * r21 R)
          - r01 R * (r10 R * r22 R - r12 R * r20 R)
          + r02 R * (r10 R * r21 R - r11 R * r20 R)"

definition proper_rotation :: "mat3 \<Rightarrow> bool" where
  "proper_rotation R \<longleftrightarrow> mat_mul (mat_transpose R) R = mat_identity \<and> det3 R = 1"

definition quat_norm :: "quat \<Rightarrow> real" where
  "quat_norm q = (case q of (w, x, y, z) \<Rightarrow> sqrt (w * w + x * x + y * y + z * z))"

definition quaternion_to_matrix :: "quat \<Rightarrow> mat3" where
  "quaternion_to_matrix q = (case q of (w, x, y, z) \<Rightarrow>
     \<lparr>r00 = 1 - 2 * (y * y + z * z), r01 = 2 * (x * y - w * z), r02 = 2 * (x * z + w * y),
      r10 = 2 * (x * y + w * z), r11 = 1 - 2 * (x * x + z * z), r12 = 2 * (y * z - w * x),
      r20 = 2 * (x * z - w * y), r21 = 2 * (y * z + w * x), r22 = 1 - 2 * (x * x + y * y)\<rparr>)"


text \<open>The rotations by 180 degrees about the x and the y axis, and by 90 degrees about z.\<close>

definition rot_x_pi :: mat3 where
  "rot_x_pi =
     \<lparr>r00 = 1, r01 = 0, r02 = 0, r10 = 0, r11 = - 1, r12 = 0, r20 = 0, r21 = 0, r22 = - 1\<rparr>"

definition rot_y_pi :: mat3 where
  "rot_y_pi =
     \<lparr>r00 = - 1, r01 = 0, r02 = 0, r10 = 0, r11 = 1, r12 = 0, r20 = 0, r21 = 0, r22 = - 1\<rparr>"

section \<open>The \<open>EasySLAM\<close> object (src/core.py)\<close>

text \<open>
  The instance is a record of the fields its methods read and assign. The classes it
  instantiates (sensors, algorithms, \<open>SensorFusion\<close>, \<open>MultiSessionMapper\<close>, \<open>Viewer3D\<close>)
  and \<open>handle_error\<close> are imported by core.py from modules that are not among the
  sources; what they do is a parameter of the model (\<open>collaborators\<close>). A sensor or
  algorithm instance is identified with the constructor call that made it.
  The constructor is modelled for \<open>config=None\<close>, no extra keyword arguments and
  \<open>enable_semantic = enable_profiling = False\<close> (the defaults), so that
  \<open>_load_configuration\<close> returns its default dictionary.
\<close>

type_synonym vec3 = "real \<times> real \<times> real"

record pose =
  rotation :: mat3
  translation :: vec3

datatype camera = CameraIndex int | CameraName string

datatype pyexn = ValueError string | Raised string

fun exn_message :: "pyexn \<Rightarrow> string" where
  "exn_message (ValueError m) = m"
| "exn_message (Raised m) = m"

record config_data =
  slam_algorithm_name :: string
  slam_mode :: string
  sensor_type :: string
  sensor_resolution :: "int \<times> int"
  sensor_fps :: int
  visualization_enabled :: bool
  visualization_update_rate :: int
  output_save_trajectory :: bool
  output_directory :: string
  performance_threading :: bool
  performance_memory_limit :: string

datatype sensor_call =
    WebcamSensor int
  | RealSenseSensor config_data
  | StereoSensor config_data
  | LiDARSensor config_data
  | DatasetSensor string

datatype algorithm_call =
    ORBSLAM_config
  | FastSLAM_config
  | GraphSLAM_config
  | VisualInertialSLAM_config
  | RGBDSLAM_kwargs
  | ORBSLAM_no_arguments

record ('f, 'm, 'pc) collaborators =
  path_exists :: "string \<Rightarrow> bool"
  sensor_raises :: "sensor_call \<Rightarrow> pyexn option"
  algorithm_raises :: "algorithm_call \<Rightarrow> pyexn option"
  viewer_raises :: "pyexn option"
  makedirs_raises :: "string \<Rightarrow> pyexn option"
  new_sensor_fusion :: "pyexn + 'f"
  new_map_merger :: "pyexn + 'm"
  fusion_truthy :: "'f \<Rightarrow> bool"
  merger_truthy :: "'m \<Rightarrow> bool"
  map_truthy :: "'pc \<Rightarrow> bool"
  add_visual :: "'f \<Rightarrow> vec3 \<Rightarrow> quat option \<Rightarrow> pyexn + 'f"
  add_session :: "'m \<Rightarrow> 'pc \<Rightarrow> pose list \<Rightarrow> pyexn + 'm"
  fusion_get_fused_pose :: "'f \<Rightarrow> pyexn + (vec3 \<times> quat) option"
  merger_get_global_map :: "'m \<Rightarrow> pyexn + 'pc option"

record init_args =
  arg_camera :: camera
  arg_mode :: string
  arg_algorithm :: string
  arg_visualization :: bool
  arg_save_trajectory :: bool
  arg_output_dir :: string
  arg_enable_sensor_fusion :: bool
  arg_enable_map_merging :: bool

record ('f, 'm, 'pc) easy_slam =
  camera :: camera
  mode :: string
  algorithm :: string
  visualization :: bool
  save_trajectory :: bool
  output_dir :: string
  enable_sensor_fusion :: bool
  enable_map_merging :: bool
  sensor :: "sensor_call option"
  slam_algorithm :: "algorithm_call option"
  running :: bool
  trajectory :: "pose list"
  map_data :: "'pc option"
  config_data :: config_data
  sensor_fusion :: "'f option"
  map_merger :: "'m option"
  reported :: "string list"

text \<open>
  \<open>handle_error\<close> is not among the sources. Every call of it in core.py is followed by a
  fallback assignment, and src/comprehensive_test.py calls it on three exceptions and
  then reports success, so it is taken to record its message and return.
\<close>

definition handle_error ::
  "string \<Rightarrow> ('f, 'm, 'pc) easy_slam \<Rightarrow> ('f, 'm, 'pc) easy_slam" where
  "handle_error msg self = self\<lparr>reported := reported self @ [msg]\<rparr>"

text \<open>
  \<open>_load_configuration\<close> with no config file and no keyword extras: the default
  dictionary, built from the fields \<open>__init__\<close> has just copied from its arguments.
\<close>

definition load_configuration :: "init_args \<Rightarrow> config_data" where
  "load_configuration args =
     \<lparr>slam_algorithm_name = arg_algorithm args, slam_mode = arg_mode args,
      sensor_type = ''webcam'', sensor_resolution = (640, 480), sensor_fps = 30,
      visualization_enabled = arg_visualization args, visualization_update_rate = 10,
      output_save_trajectory = arg_save_trajectory args,
      output_directory = arg_output_dir args,
      performance_threading = True, performance_memory_limit = ''2GB''\<rparr>"

text \<open>The body of a \<open>try\<close>: the constructor call chosen, or the exception raised.\<close>

definition construct_sensor ::
  "('f, 'm, 'pc) collaborators \<Rightarrow> sensor_call \<Rightarrow> pyexn + sensor_call" where
  "construct_sensor env c = (case sensor_raises env c of Some e \<Rightarrow> Inl e | None \<Rightarrow> Inr c)"

definition construct_algorithm ::
  "('f, 'm, 'pc) collaborators \<Rightarrow> algorithm_call \<Rightarrow> pyexn + algorithm_call" where
  "construct_algorithm env c =
     (case algorithm_raises env c of Some e \<Rightarrow> Inl e | None \<Rightarrow> Inr c)"

definition select_sensor ::
  "('f, 'm, 'pc) collaborators \<Rightarrow> ('f, 'm, 'pc) easy_slam \<Rightarrow> pyexn + sensor_call" where
  "select_sensor env self =
     (case camera self of
        CameraIndex i \<Rightarrow> construct_sensor env (WebcamSensor i)
      | CameraName n \<Rightarrow>
          if n = ''webcam'' then construct_sensor env (WebcamSensor 0)
          else if n = ''realsense'' then construct_sensor env (RealSenseSensor (config_data self))
          else if n = ''stereo'' then construct_sensor env (StereoSensor (config_data self))
          else if n = ''lidar'' then construct_sensor env (LiDARSensor (config_data self))
          else if path_exists env n then construct_sensor env (DatasetSensor n)
          else Inl (ValueError (''Unsupported sensor type: '' @ n)))"

definition initialize_sensor ::
  "('f, 'm, 'pc) collaborators \<Rightarrow> ('f, 'm, 'pc) easy_slam \<Rightarrow> pyexn + ('f, 'm, 'pc) easy_slam" where
  "initialize_sensor env self =
     (case select_sensor env self of
        Inr s \<Rightarrow> Inr (self\<lparr>sensor := Some s\<rparr>)
      | Inl e \<Rightarrow>
          (let self' = handle_error (''Failed to initialize sensor: '' @ exn_message e) self
           in case construct_sensor env (WebcamSensor 0) of
                Inl e' \<Rightarrow> Inl e'
              | Inr s \<Rightarrow> Inr (self'\<lparr>sensor := Some s\<rparr>)))"

definition select_algorithm ::
  "('f, 'm, 'pc) collaborators \<Rightarrow> ('f, 'm, 'pc) easy_slam \<Rightarrow> pyexn + algorithm_call" where
  "select_algorithm env self =
     (let algorithm_name = slam_algorithm_name (config_data self) in
      if algorithm_name = ''orb_slam'' then construct_algorithm env ORBSLAM_config
      else if algorithm_name = ''fastslam'' then construct_algorithm env FastSLAM_config
      else if algorithm_name = ''graphslam'' then construct_algorithm env GraphSLAM_config
      else if algorithm_name = ''visual_inertial''
        then construct_algorithm env VisualInertialSLAM_config
      else if algorithm_name = ''rgbd_slam'' then construct_algorithm env RGBDSLAM_kwargs
      else Inl (ValueError (''Unsupported algorithm: '' @ algorithm_name)))"

definition initialize_algorithm ::
  "('f, 'm, 'pc) collaborators \<Rightarrow> ('f, 'm, 'pc) easy_slam \<Rightarrow> pyexn + ('f, 'm, 'pc) easy_slam" where
  "initialize_algorithm env self =
     (case select_algorithm env self of
        Inr a \<Rightarrow> Inr (self\<lparr>slam_algorithm := Some a\<rparr>)
      | Inl e \<Rightarrow>
          (let self' = handle_error (''Failed to initialize algorithm: '' @ exn_message e) self
           in case construct_algorithm env ORBSLAM_no_arguments of
                Inl e' \<Rightarrow> Inl e'
              | Inr a \<Rightarrow> Inr (self'\<lparr>slam_algorithm := Some a\<rparr>)))"

definition initialize_visualization ::
  "('f, 'm, 'pc) collaborators \<Rightarrow> ('f, 'm, 'pc) easy_slam \<Rightarrow> ('f, 'm, 'pc) easy_slam" where
  "initialize_visualization env self =
     (case viewer_raises env of
        None \<Rightarrow> self
      | Some e \<Rightarrow>
          (handle_error (''Failed to initialize visualization: '' @ exn_message e) self)
            \<lparr>visualization := False\<rparr>)"



text \<open>
  \<open>__init__\<close>, in the order of its statements: the fields copied from the arguments
  and the empty components (lines 62 to 84), then the initialisers (lines 87 to 103).
\<close>

definition initial_fields :: "init_args \<Rightarrow> ('f, 'm, 'pc) easy_slam" where
  "initial_fields args =
     \<lparr>camera = arg_camera args, mode = arg_mode args, algorithm = arg_algorithm args,
      visualization = arg_visualization args, save_trajectory = arg_save_trajectory args,
      output_dir = arg_output_dir args,
      enable_sensor_fusion = arg_enable_sensor_fusion args,
      enable_map_merging = arg_enable_map_merging args,
      sensor = None, slam_algorithm = None, running = False, trajectory = [],
      map_data = None, config_data = load_configuration args,
      sensor_fusion = None, map_merger = None, reported = []\<rparr>"

definition create_sensor_fusion ::
  "('f, 'm, 'pc) collaborators \<Rightarrow> ('f, 'm, 'pc) easy_slam \<Rightarrow> pyexn + 'f option" where
  "create_sensor_fusion env self =
     (if enable_sensor_fusion self then map_sum id Some (new_sensor_fusion env) else Inr None)"

definition create_map_merger ::
  "('f, 'm, 'pc) collaborators \<Rightarrow> ('f, 'm, 'pc) easy_slam \<Rightarrow> pyexn + 'm option" where
  "create_map_merger env self =
     (if enable_map_merging self then map_sum id Some (new_map_merger env) else Inr None)"

definition EasySLAM_init ::
  "('f, 'm, 'pc) collaborators \<Rightarrow> init_args \<Rightarrow> pyexn + ('f, 'm, 'pc) easy_slam" where
  "EasySLAM_init env args =
     (case initialize_sensor env (initial_fields args) of
        Inl e \<Rightarrow> Inl e
      | Inr self2 \<Rightarrow>
     (case initialize_algorithm env self2 of
        Inl e \<Rightarrow> Inl e
      | Inr self3 \<Rightarrow>
     (case create_sensor_fusion env self3 of
        Inl e \<Rightarrow> Inl e
      | Inr fusion \<Rightarrow>
     (case create_map_merger env self3 of
        Inl e \<Rightarrow> Inl e
      | Inr merger \<Rightarrow>
     (let self4 = self3\<lparr>sensor_fusion := fusion, map_merger := merger\<rparr>;
          self5 = (if visualization self4 then initialize_visualization env self4 else self4)
      in case makedirs_raises env (output_dir self5) of
           Some e \<Rightarrow> Inl e
         | None \<Rightarrow> Inr self5)))))"

text \<open>
  The methods that assign fields after construction. One iteration of each loop is one
  step; what the sensor and the algorithm deliver in that iteration is the step's
  argument. Printing, saving files, the viewer and the profiler assign no field and are
  left out.
\<close>

datatype 'pc frame =
    SensorNone
  | ResultNone
  | Result pose "'pc option"
  | FrameRaises pyexn

text \<open>
  \<open>_process_loop\<close> (lines 335 to 414), one iteration: the new state, and whether the
  loop goes on (\<open>False\<close> after the \<open>break\<close> of the exception handler).
\<close>

definition fuse_visual ::
  "('f, 'm, 'pc) collaborators \<Rightarrow> pose \<Rightarrow> ('f, 'm, 'pc) easy_slam \<Rightarrow> pyexn + ('f, 'm, 'pc) easy_slam" where
  "fuse_visual env p self =
     (case sensor_fusion self of
        None \<Rightarrow> Inr self
      | Some f \<Rightarrow>
          if fusion_truthy env f
          then (case add_visual env f (translation p) (matrix_to_quaternion (rotation p)) of
                  Inl e \<Rightarrow> Inl e
                | Inr f' \<Rightarrow> Inr (self\<lparr>sensor_fusion := Some f'\<rparr>))
          else Inr self)"

definition merge_session ::
  "('f, 'm, 'pc) collaborators \<Rightarrow> ('f, 'm, 'pc) easy_slam \<Rightarrow> pyexn + ('f, 'm, 'pc) easy_slam" where
  "merge_session env self =
     (case (map_merger self, map_data self) of
        (Some m, Some d) \<Rightarrow>
          if merger_truthy env m \<and> map_truthy env d
          then (case add_session env m d (trajectory self) of
                  Inl e \<Rightarrow> Inl e
                | Inr m' \<Rightarrow> Inr (self\<lparr>map_merger := Some m'\<rparr>))
          else Inr self
      | _ \<Rightarrow> Inr self)"

definition process_loop_step ::
  "('f, 'm, 'pc) collaborators \<Rightarrow> ('f, 'm, 'pc) easy_slam \<Rightarrow> 'pc frame \<Rightarrow>
     ('f, 'm, 'pc) easy_slam \<times> bool" where
  "process_loop_step env self fr =
     (case fr of
        SensorNone \<Rightarrow> (self, True)
      | ResultNone \<Rightarrow> (self, True)
      | FrameRaises e \<Rightarrow> (handle_error (exn_message e) self, False)
      | Result p m \<Rightarrow>
          (let self1 = self\<lparr>trajectory := trajectory self @ [p]\<rparr>;
               self2 = (case m of None \<Rightarrow> self1 | Some d \<Rightarrow> self1\<lparr>map_data := Some d\<rparr>)
           in case fuse_visual env p self2 of
                Inl e \<Rightarrow> (handle_error (exn_message e) self2, False)
              | Inr self3 \<Rightarrow>
                  (case merge_session env self3 of
                     Inl e \<Rightarrow> (handle_error (exn_message e) self3, False)
                   | Inr self4 \<Rightarrow> (self4, True))))"

fun process_loop ::
  "('f, 'm, 'pc) collaborators \<Rightarrow> ('f, 'm, 'pc) easy_slam \<Rightarrow> 'pc frame list \<Rightarrow>
     ('f, 'm, 'pc) easy_slam" where
  "process_loop env self [] = self"
| "process_loop env self (fr # frs) =
     (if running self
      then (case process_loop_step env self fr of
              (self', True) \<Rightarrow> process_loop env self' frs
            | (self', False) \<Rightarrow> self')
      else self)"

text \<open>
  \<open>_run_realtime\<close> (lines 215 to 251), one iteration with a truthy result: the pose
  and the map are assigned when the result has the attribute.
\<close>

definition realtime_step ::
  "('f, 'm, 'pc) easy_slam \<Rightarrow> pose option \<Rightarrow> 'pc option option \<Rightarrow> ('f, 'm, 'pc) easy_slam" where
  "realtime_step self p m =
     (let self1 = (case p of None \<Rightarrow> self | Some q \<Rightarrow> self\<lparr>trajectory := trajectory self @ [q]\<rparr>)
      in case m of None \<Rightarrow> self1 | Some d \<Rightarrow> self1\<lparr>map_data := d\<rparr>)"

text \<open>\<open>_run_offline\<close> (lines 257 to 264), one iteration with a frame.\<close>

definition offline_step ::
  "('f, 'm, 'pc) easy_slam \<Rightarrow> pose option \<Rightarrow> ('f, 'm, 'pc) easy_slam" where
  "offline_step self p =
     (case p of None \<Rightarrow> self | Some q \<Rightarrow> self\<lparr>trajectory := trajectory self @ [q]\<rparr>)"

definition stop :: "('f, 'm, 'pc) easy_slam \<Rightarrow> ('f, 'm, 'pc) easy_slam" where
  "stop self = self\<lparr>running := False\<rparr>"

definition start_running :: "('f, 'm, 'pc) easy_slam \<Rightarrow> ('f, 'm, 'pc) easy_slam" where
  "start_running self = self\<lparr>running := True\<rparr>"

datatype 'pc method_call =
    ProcessLoop "'pc frame list"
  | RealtimeIteration "pose option" "'pc option option"
  | OfflineIteration "pose option"
  | RealtimeError pyexn
  | StartRunning
  | Stop

fun call_method ::
  "('f, 'm, 'pc) collaborators \<Rightarrow> ('f, 'm, 'pc) easy_slam \<Rightarrow> 'pc method_call \<Rightarrow>
     ('f, 'm, 'pc) easy_slam" where
  "call_method env self (ProcessLoop frs) = process_loop env self frs"
| "call_method env self (RealtimeIteration p m) = realtime_step self p m"
| "call_method env self (OfflineIteration p) = offline_step self p"
| "call_method env self (RealtimeError e) =
     handle_error (''Frame processing error: '' @ exn_message e) self"
| "call_method env self StartRunning = start_running self"
| "call_method env self Stop = stop self"

definition after_calls ::
  "('f, 'm, 'pc) collaborators \<Rightarrow> ('f, 'm, 'pc) easy_slam \<Rightarrow> 'pc method_call list \<Rightarrow>
     ('f, 'm, 'pc) easy_slam" where
  "after_calls env self calls = foldl (call_method env) self calls"

text \<open>The two accessors (lines 448 to 458).\<close>

definition get_fused_pose ::
  "('f, 'm, 'pc) collaborators \<Rightarrow> ('f, 'm, 'pc) easy_slam \<Rightarrow> pyexn + (vec3 \<times> quat) option" where
  "get_fused_pose env self =
     (case sensor_fusion self of
        Some f \<Rightarrow> if fusion_truthy env f then fusion_get_fused_pose env f else Inr None
      | None \<Rightarrow> Inr None)"

definition get_global_map ::
  "('f, 'm, 'pc) collaborators \<Rightarrow> ('f, 'm, 'pc) easy_slam \<Rightarrow> pyexn + 'pc option" where
  "get_global_map env self =
     (case map_merger self of
        Some m \<Rightarrow> if merger_truthy env m then merger_get_global_map env m else Inr (map_data self)
      | None \<Rightarrow> Inr (map_data self))"

text \<open>
  Collaborators under which nothing raises and no path exists, and the arguments of the
  call \<open>EasySLAM(algorithm='invalid_algorithm')\<close> of src/comprehensive_test.py.
\<close>

definition quiet :: "(unit, unit, unit) collaborators" where
  "quiet =
     \<lparr>path_exists = (\<lambda>_. False), sensor_raises = (\<lambda>_. None),
      algorithm_raises = (\<lambda>_. None), viewer_raises = None, makedirs_raises = (\<lambda>_. None),
      new_sensor_fusion = Inr (), new_map_merger = Inr (),
      fusion_truthy = (\<lambda>_. True), merger_truthy = (\<lambda>_. True), map_truthy = (\<lambda>_. True),
      add_visual = (\<lambda>f _ _. Inr f), add_session = (\<lambda>m _ _. Inr m),
      fusion_get_fused_pose = (\<lambda>_. Inr None), merger_get_global_map = (\<lambda>_. Inr None)\<rparr>"

definition default_args :: init_args where
  "default_args =
     \<lparr>arg_camera = CameraIndex 0, arg_mode = ''realtime'', arg_algorithm = ''orb_slam'',
      arg_visualization = True, arg_save_trajectory = False, arg_output_dir = ''./results'',
      arg_enable_sensor_fusion = False, arg_enable_map_merging = False\<rparr>"




definition unit_pose :: pose where
  "unit_pose = \<lparr>rotation = mat_identity, translation = (0, 0, 0)\<rparr>"

section \<open>The State Fuser: inertial prediction (spec 3 and 4.1)\<close>

text \<open>
  core.py imports \<open>SensorFusion\<close> from \<open>utils/sensor_fusion.py\<close>, which is not among the
  sources. The definitions of this section follow the words of the specification.
\<close>

text \<open>
  Modelled from the spec: the time stamp of a measurement (the State Fuser's code is
  missing). It is a float, so it may be non-finite.
\<close>

datatype timestamp = Finite real | PosInf | NegInf | NaN

text \<open>
  Modelled from the spec: \<open>FusedState\<close> of the missing State Fuser: position, velocity,
  orientation quaternion, a covariance over the 10-dimensional state, and the time of
  the last update.
\<close>

record fused_state =
  position :: vec3
  velocity :: vec3
  orientation :: quat
  covariance :: "real list list"
  last_update :: real

text \<open>
  Modelled from the spec: the configuration of the missing State Fuser: the maximum
  elapsed time, the gravity vector, the process noise, the initial uncertainty, and the
  rule that integrates an angular velocity over a time step, for which the specification
  fixes no formula.
\<close>

record fuser_config =
  dt_max :: real
  gravity :: vec3
  process_noise :: "real list list"
  initial_uncertainty :: real
  integrate_orientation :: "quat \<Rightarrow> vec3 \<Rightarrow> real \<Rightarrow> quat"

text \<open>Modelled from the spec: vector sum, for the missing State Fuser's propagation.\<close>

definition vec_add :: "vec3 \<Rightarrow> vec3 \<Rightarrow> vec3" where
  "vec_add u v = (case (u, v) of ((a, b, c), (d, e, f)) \<Rightarrow> (a + d, b + e, c + f))"

text \<open>Modelled from the spec: vector difference, for subtracting gravity.\<close>

definition vec_sub :: "vec3 \<Rightarrow> vec3 \<Rightarrow> vec3" where
  "vec_sub u v = (case (u, v) of ((a, b, c), (d, e, f)) \<Rightarrow> (a - d, b - e, c - f))"

text \<open>Modelled from the spec: a vector scaled by the time step.\<close>

definition vec_scale :: "real \<Rightarrow> vec3 \<Rightarrow> vec3" where
  "vec_scale k v = (case v of (a, b, c) \<Rightarrow> (k * a, k * b, k * c))"

text \<open>Modelled from the spec: a rotation matrix applied to a vector.\<close>

definition mat_vec :: "mat3 \<Rightarrow> vec3 \<Rightarrow> vec3" where
  "mat_vec R v = (case v of (a, b, c) \<Rightarrow>
     (r00 R * a + r01 R * b + r02 R * c,
      r10 R * a + r11 R * b + r12 R * c,
      r20 R * a + r21 R * b + r22 R * c))"

text \<open>
  Modelled from the spec: the covariance of the missing State Fuser grown by the
  process noise scaled by the time step.
\<close>

definition grow_covariance :: "real list list \<Rightarrow> real list list \<Rightarrow> real \<Rightarrow> real list list" where
  "grow_covariance P Q dt = map2 (map2 (\<lambda>p q. p + dt * q)) P Q"

text \<open>
  Modelled from the spec: the default state the missing State Fuser is created with
  (identity pose, zero velocity, large initial uncertainty).
\<close>

definition initial_state :: "fuser_config \<Rightarrow> real \<Rightarrow> fused_state" where
  "initial_state cfg t0 =
     \<lparr>position = (0, 0, 0), velocity = (0, 0, 0), orientation = (1, 0, 0, 0),
      covariance = map (\<lambda>i. map (\<lambda>j. if i = j then initial_uncertainty cfg else 0) [0..<10])
                     [0..<10],
      last_update = t0\<rparr>"

text \<open>
  Modelled from the spec: the elapsed time since the last processed measurement, as the
  missing \<open>add_inertial\<close> computes it; a non-finite time stamp gives a non-finite
  difference.
\<close>

definition elapsed_time :: "timestamp \<Rightarrow> real \<Rightarrow> timestamp" where
  "elapsed_time ts previous =
     (case ts of Finite t \<Rightarrow> Finite (t - previous) | PosInf \<Rightarrow> PosInf | NegInf \<Rightarrow> NegInf
      | NaN \<Rightarrow> NaN)"

text \<open>
  Modelled from the spec: the elapsed times the missing \<open>add_inertial\<close> refuses: zero,
  negative or non-finite.
\<close>

definition elapsed_invalid :: "timestamp \<Rightarrow> bool" where
  "elapsed_invalid d = (case d of Finite x \<Rightarrow> x \<le> 0 | _ \<Rightarrow> True)"

text \<open>
  Modelled from the spec: the diagnostic flag the missing \<open>add_inertial\<close> returns.
\<close>

datatype inertial_status = Integrated | ElapsedTimeRejected

text \<open>
  Modelled from the spec: the prediction step of the missing \<open>add_inertial\<close>:
  orientation integrated from the angular velocity, velocity from the acceleration
  rotated into the world frame less gravity, position from velocity, covariance grown
  by the process noise, and the time of the last update set.
\<close>

definition propagate ::
  "fuser_config \<Rightarrow> fused_state \<Rightarrow> vec3 \<Rightarrow> vec3 \<Rightarrow> real \<Rightarrow> real \<Rightarrow> fused_state" where
  "propagate cfg st angular_velocity linear_acceleration dt t =
     \<lparr>position = vec_add (position st) (vec_scale dt (velocity st)),
      velocity = vec_add (velocity st)
        (vec_scale dt
           (vec_sub (mat_vec (quaternion_to_matrix (orientation st)) linear_acceleration)
              (gravity cfg))),
      orientation = integrate_orientation cfg (orientation st) angular_velocity dt,
      covariance = grow_covariance (covariance st) (process_noise cfg) dt,
      last_update = t\<rparr>"

text \<open>
  Modelled from the spec: \<open>add_inertial(angular_velocity, linear_acceleration,
  timestamp)\<close> of the missing State Fuser. The elapsed time is checked first; a valid one
  is clamped to the configured maximum and the measurement is integrated.
\<close>

definition add_inertial ::
  "fuser_config \<Rightarrow> fused_state \<Rightarrow> vec3 \<Rightarrow> vec3 \<Rightarrow> timestamp \<Rightarrow> inertial_status \<times> fused_state" where
  "add_inertial cfg st angular_velocity linear_acceleration ts =
     (case (ts, elapsed_time ts (last_update st)) of
        (Finite t, Finite d) \<Rightarrow>
          if d \<le> 0 then (ElapsedTimeRejected, st)
          else (Integrated,
                propagate cfg st angular_velocity linear_acceleration (min d (dt_max cfg)) t)
      | _ \<Rightarrow> (ElapsedTimeRejected, st))"

text \<open>
  Modelled from the spec: the quaternion product, for an example of the integration
  rule the specification leaves open.
\<close>

definition quat_mul :: "quat \<Rightarrow> quat \<Rightarrow> quat" where
  "quat_mul p q = (case (p, q) of ((a, b, c, d), (e, f, g, h)) \<Rightarrow>
     (a * e - b * f - c * g - d * h,
      a * f + b * e + c * h - d * g,
      a * g - b * h + c * e + d * f,
      a * h + b * g - c * f + d * e))"

text \<open>
  Modelled from the spec: an example of an integration rule for the missing State
  Fuser: one first-order step of the quaternion kinematics, then normalisation.
\<close>

definition first_order_step :: "quat \<Rightarrow> vec3 \<Rightarrow> real \<Rightarrow> quat" where
  "first_order_step q angular_velocity dt =
     (case (q, quat_mul q (case angular_velocity of (x, y, z) \<Rightarrow> (0, x, y, z))) of
        ((a, b, c, d), (e, f, g, h)) \<Rightarrow>
          (let raw = (a + dt / 2 * e, b + dt / 2 * f, c + dt / 2 * g, d + dt / 2 * h);
               n = quat_norm raw
           in if n = 0 then q
              else (case raw of (k, l, u, v) \<Rightarrow> (k / n, l / n, u / n, v / n))))"

text \<open>
  Modelled from the spec: a configuration of the missing State Fuser, for examples.
\<close>

definition example_config :: fuser_config where
  "example_config =
     \<lparr>dt_max = 1 / 10, gravity = (0, 0, 981 / 100),
      process_noise = replicate 10 (replicate 10 (1 / 100)), initial_uncertainty = 1000,
      integrate_orientation = first_order_step\<rparr>"

section \<open>The Multi-Session Mapper: adding a session (spec 3 and 4.3)\<close>

text \<open>
  core.py imports \<open>MultiSessionMapper\<close> from \<open>utils/map_merging.py\<close>, which is not among
  the sources. The definitions of this section follow the words of the specification.
  The Pairwise Map Registrar the Mapper calls is an argument of \<open>add_session\<close>.
\<close>

text \<open>
  Modelled from the spec: a \<open>Session\<close> of the missing Mapper: an ordered point
  collection and the trajectory that produced it. The type of a point is left open.
\<close>

record 'p session =
  session_cloud :: "'p list"
  session_trajectory :: "pose list"

text \<open>
  Modelled from the spec: \<open>AlignmentTransform\<close>: a rigid transform and a scalar
  registration-quality score (the Registrar's code is missing).
\<close>

record alignment_transform =
  rigid :: pose
  quality :: real

text \<open>
  Modelled from the spec: what the missing Registrar's \<open>merge\<close> returns: the merged
  cloud, the transform with its quality, and the flag that marks the result valid.
\<close>

record 'p merge_result =
  merged_cloud :: "'p list"
  alignment :: alignment_transform
  valid :: bool

text \<open>Modelled from the spec: the states of a session in the missing Mapper.\<close>

datatype session_state = Added | Registered | Rejected

text \<open>
  Modelled from the spec: a session as the missing Mapper keeps it: the session, its
  state, and its transform to the global frame when it has one.
\<close>

record 'p session_entry =
  entry_session :: "'p session"
  entry_state :: session_state
  entry_transform :: "alignment_transform option"

text \<open>
  Modelled from the spec: the state of the missing Multi-Session Mapper: the ordered
  sessions and the \<open>GlobalMap\<close>.
\<close>

record 'p mapper =
  sessions :: "'p session_entry list"
  global_map :: "'p list"


text \<open>
  Modelled from the spec: the identity transform the missing Mapper stores for the
  first session, with the best quality (distance zero).
\<close>

definition identity_alignment :: alignment_transform where
  "identity_alignment =
     \<lparr>rigid = \<lparr>rotation = mat_identity, translation = (0, 0, 0)\<rparr>, quality = 0\<rparr>"

text \<open>
  Modelled from the spec: a rigid transform applied to a pose, which the missing Mapper
  does to every pose of a registered session's trajectory.
\<close>

definition transform_pose :: "pose \<Rightarrow> pose \<Rightarrow> pose" where
  "transform_pose T p =
     \<lparr>rotation = mat_mul (rotation T) (rotation p),
      translation = vec_add (mat_vec (rotation T) (translation p)) (translation T)\<rparr>"

text \<open>
  Modelled from the spec: \<open>add_session(session)\<close> of the missing Mapper. The first
  session defines the global frame; a later one is registered against the current
  \<open>GlobalMap\<close>, and is folded in on success or kept as rejected on failure. The result
  is the state the session ends in and the Mapper after the call.
\<close>

definition add_session ::
  "('p list \<Rightarrow> 'p list \<Rightarrow> 'p merge_result) \<Rightarrow> 'p mapper \<Rightarrow> 'p session \<Rightarrow>
     session_state \<times> 'p mapper" where
  "add_session registrar m s =
     (if sessions m = []
      then (Registered,
            m\<lparr>sessions :=
                 [\<lparr>entry_session = s, entry_state = Registered,
                   entry_transform = Some identity_alignment\<rparr>],
              global_map := session_cloud s\<rparr>)
      else (let r = registrar (global_map m) (session_cloud s) in
            if valid r
            then (Registered,
                  m\<lparr>sessions := sessions m @
                       [\<lparr>entry_session =
                           s\<lparr>session_trajectory :=
                                map (transform_pose (rigid (alignment r)))
                                  (session_trajectory s)\<rparr>,
                         entry_state = Registered,
                         entry_transform = Some (alignment r)\<rparr>],
                    global_map := merged_cloud r\<rparr>)
            else (Rejected,
                  m\<lparr>sessions := sessions m @
                       [\<lparr>entry_session = s, entry_state = Rejected,
                         entry_transform = None\<rparr>]\<rparr>)))"






subsection \<open>Algebra of proper rotation matrices\<close>

lemma cross_unique:
  fixes u1 u2 u3 v1 v2 v3 w1 w2 w3 :: real
  assumes nu: "u1 * u1 + u2 * u2 + u3 * u3 = 1"
      and nv: "v1 * v1 + v2 * v2 + v3 * v3 = 1"
      and nw: "w1 * w1 + w2 * w2 + w3 * w3 = 1"
      and vw: "v1 * w1 + v2 * w2 + v3 * w3 = 0"
      and dt: "u1 * (v2 * w3 - v3 * w2) + u2 * (v3 * w1 - v1 * w3) + u3 * (v1 * w2 - v2 * w1) = 1"
  shows "u1 = v2 * w3 - v3 * w2 \<and> u2 = v3 * w1 - v1 * w3 \<and> u3 = v1 * w2 - v2 * w1"
proof -
  define c1 where "c1 = v2 * w3 - v3 * w2"
  define c2 where "c2 = v3 * w1 - v1 * w3"
  define c3 where "c3 = v1 * w2 - v2 * w1"
  have lagrange: "c1 * c1 + c2 * c2 + c3 * c3
     = (v1 * v1 + v2 * v2 + v3 * v3) * (w1 * w1 + w2 * w2 + w3 * w3)
       - (v1 * w1 + v2 * w2 + v3 * w3) * (v1 * w1 + v2 * w2 + v3 * w3)"
    unfolding c1_def c2_def c3_def by (simp add: algebra_simps)
  have nc: "c1 * c1 + c2 * c2 + c3 * c3 = 1"
    unfolding lagrange nv nw vw by simp
  have uc: "u1 * c1 + u2 * c2 + u3 * c3 = 1"
    unfolding c1_def c2_def c3_def by (rule dt)
  have "(u1 - c1)\<^sup>2 + (u2 - c2)\<^sup>2 + (u3 - c3)\<^sup>2
      = (u1 * u1 + u2 * u2 + u3 * u3) - 2 * (u1 * c1 + u2 * c2 + u3 * c3)
        + (c1 * c1 + c2 * c2 + c3 * c3)"
    by (simp add: power2_eq_square algebra_simps)
  also have "\<dots> = 0"
    unfolding nu uc nc by simp
  finally have z: "(u1 - c1)\<^sup>2 + (u2 - c2)\<^sup>2 + (u3 - c3)\<^sup>2 = 0" .
  have s1: "0 \<le> (u1 - c1)\<^sup>2" and s2: "0 \<le> (u2 - c2)\<^sup>2" and s3: "0 \<le> (u3 - c3)\<^sup>2"
    by simp_all
  from z s1 s2 s3 have "(u1 - c1)\<^sup>2 = 0" "(u2 - c2)\<^sup>2 = 0" "(u3 - c3)\<^sup>2 = 0"
    by linarith+
  then show ?thesis
    unfolding c1_def c2_def c3_def by simp
qed

lemma rot_cols:
  assumes "proper_rotation R"
  shows rot_col11: "r00 R * r00 R + r10 R * r10 R + r20 R * r20 R = 1"
    and rot_col22: "r01 R * r01 R + r11 R * r11 R + r21 R * r21 R = 1"
    and rot_col33: "r02 R * r02 R + r12 R * r12 R + r22 R * r22 R = 1"
    and rot_col12: "r00 R * r01 R + r10 R * r11 R + r20 R * r21 R = 0"
    and rot_col13: "r00 R * r02 R + r10 R * r12 R + r20 R * r22 R = 0"
    and rot_col23: "r01 R * r02 R + r11 R * r12 R + r21 R * r22 R = 0"
  using assms
  by (simp_all add: proper_rotation_def mat_mul_def mat_transpose_def mat_identity_def)

lemma rot_det:
  assumes "proper_rotation R"
  shows "det3 R = 1"
  using assms by (simp add: proper_rotation_def)

lemma rot_cof_col1:
  assumes rot: "proper_rotation R"
  shows rot_cof00: "r11 R * r22 R - r12 R * r21 R = r00 R"
    and rot_cof10: "r02 R * r21 R - r01 R * r22 R = r10 R"
    and rot_cof20: "r01 R * r12 R - r02 R * r11 R = r20 R"
proof -
  have "r00 R * (r11 R * r22 R - r21 R * r12 R) + r10 R * (r21 R * r02 R - r01 R * r22 R)
        + r20 R * (r01 R * r12 R - r11 R * r02 R) = det3 R"
    by (simp add: det3_def algebra_simps)
  then have dt: "r00 R * (r11 R * r22 R - r21 R * r12 R) + r10 R * (r21 R * r02 R - r01 R * r22 R)
        + r20 R * (r01 R * r12 R - r11 R * r02 R) = 1"
    using rot_det [OF rot] by simp
  from cross_unique [OF rot_col11 [OF rot] rot_col22 [OF rot] rot_col33 [OF rot] rot_col23 [OF rot] dt]
  show "r11 R * r22 R - r12 R * r21 R = r00 R"
    and "r02 R * r21 R - r01 R * r22 R = r10 R"
    and "r01 R * r12 R - r02 R * r11 R = r20 R"
    by (simp_all add: mult.commute)
qed

lemma rot_cof_col2:
  assumes rot: "proper_rotation R"
  shows rot_cof01: "r12 R * r20 R - r10 R * r22 R = r01 R"
    and rot_cof11: "r00 R * r22 R - r02 R * r20 R = r11 R"
    and rot_cof21: "r02 R * r10 R - r00 R * r12 R = r21 R"
proof -
  have "r01 R * (r12 R * r20 R - r22 R * r10 R) + r11 R * (r22 R * r00 R - r02 R * r20 R)
        + r21 R * (r02 R * r10 R - r12 R * r00 R) = det3 R"
    by (simp add: det3_def algebra_simps)
  then have dt: "r01 R * (r12 R * r20 R - r22 R * r10 R) + r11 R * (r22 R * r00 R - r02 R * r20 R)
        + r21 R * (r02 R * r10 R - r12 R * r00 R) = 1"
    using rot_det [OF rot] by simp
  have c31: "r02 R * r00 R + r12 R * r10 R + r22 R * r20 R = 0"
    using rot_col13 [OF rot] by (simp add: mult.commute)
  from cross_unique [OF rot_col22 [OF rot] rot_col33 [OF rot] rot_col11 [OF rot] c31 dt]
  show "r12 R * r20 R - r10 R * r22 R = r01 R"
    and "r00 R * r22 R - r02 R * r20 R = r11 R"
    and "r02 R * r10 R - r00 R * r12 R = r21 R"
    by (simp_all add: mult.commute)
qed

lemma rot_cof_col3:
  assumes rot: "proper_rotation R"
  shows rot_cof02: "r10 R * r21 R - r11 R * r20 R = r02 R"
    and rot_cof12: "r01 R * r20 R - r00 R * r21 R = r12 R"
    and rot_cof22: "r00 R * r11 R - r01 R * r10 R = r22 R"
proof -
  have "r02 R * (r10 R * r21 R - r20 R * r11 R) + r12 R * (r20 R * r01 R - r00 R * r21 R)
        + r22 R * (r00 R * r11 R - r10 R * r01 R) = det3 R"
    by (simp add: det3_def algebra_simps)
  then have dt: "r02 R * (r10 R * r21 R - r20 R * r11 R) + r12 R * (r20 R * r01 R - r00 R * r21 R)
        + r22 R * (r00 R * r11 R - r10 R * r01 R) = 1"
    using rot_det [OF rot] by simp
  from cross_unique [OF rot_col33 [OF rot] rot_col11 [OF rot] rot_col22 [OF rot] rot_col12 [OF rot] dt]
  show "r10 R * r21 R - r11 R * r20 R = r02 R"
    and "r01 R * r20 R - r00 R * r21 R = r12 R"
    and "r00 R * r11 R - r01 R * r10 R = r22 R"
    by (simp_all add: mult.commute)
qed

lemma rot_rows_norm:
  assumes rot: "proper_rotation R"
  shows rot_row11: "r00 R * r00 R + r01 R * r01 R + r02 R * r02 R = 1"
    and rot_row22: "r10 R * r10 R + r11 R * r11 R + r12 R * r12 R = 1"
    and rot_row33: "r20 R * r20 R + r21 R * r21 R + r22 R * r22 R = 1"
proof -
  have "r00 R * r00 R + r01 R * r01 R + r02 R * r02 R
      = r00 R * (r11 R * r22 R - r12 R * r21 R) + r01 R * (r12 R * r20 R - r10 R * r22 R)
        + r02 R * (r10 R * r21 R - r11 R * r20 R)"
    unfolding rot_cof00 [OF rot] rot_cof01 [OF rot] rot_cof02 [OF rot] by simp
  also have "\<dots> = det3 R"
    by (simp add: det3_def algebra_simps)
  finally show "r00 R * r00 R + r01 R * r01 R + r02 R * r02 R = 1"
    using rot_det [OF rot] by simp
  have "r10 R * r10 R + r11 R * r11 R + r12 R * r12 R
      = r10 R * (r02 R * r21 R - r01 R * r22 R) + r11 R * (r00 R * r22 R - r02 R * r20 R)
        + r12 R * (r01 R * r20 R - r00 R * r21 R)"
    unfolding rot_cof10 [OF rot] rot_cof11 [OF rot] rot_cof12 [OF rot] by simp
  also have "\<dots> = det3 R"
    by (simp add: det3_def algebra_simps)
  finally show "r10 R * r10 R + r11 R * r11 R + r12 R * r12 R = 1"
    using rot_det [OF rot] by simp
  have "r20 R * r20 R + r21 R * r21 R + r22 R * r22 R
      = r20 R * (r01 R * r12 R - r02 R * r11 R) + r21 R * (r02 R * r10 R - r00 R * r12 R)
        + r22 R * (r00 R * r11 R - r01 R * r10 R)"
    unfolding rot_cof20 [OF rot] rot_cof21 [OF rot] rot_cof22 [OF rot] by simp
  also have "\<dots> = det3 R"
    by (simp add: det3_def algebra_simps)
  finally show "r20 R * r20 R + r21 R * r21 R + r22 R * r22 R = 1"
    using rot_det [OF rot] by simp
qed

lemma rot_rows_orth:
  assumes rot: "proper_rotation R"
  shows rot_row12: "r00 R * r10 R + r01 R * r11 R + r02 R * r12 R = 0"
    and rot_row13: "r00 R * r20 R + r01 R * r21 R + r02 R * r22 R = 0"
    and rot_row23: "r10 R * r20 R + r11 R * r21 R + r12 R * r22 R = 0"
proof -
  have "r00 R * r10 R + r01 R * r11 R + r02 R * r12 R
      = (r11 R * r22 R - r12 R * r21 R) * r10 R + (r12 R * r20 R - r10 R * r22 R) * r11 R
        + (r10 R * r21 R - r11 R * r20 R) * r12 R"
    unfolding rot_cof00 [OF rot] rot_cof01 [OF rot] rot_cof02 [OF rot] by simp
  also have "\<dots> = 0"
    by (simp add: algebra_simps)
  finally show "r00 R * r10 R + r01 R * r11 R + r02 R * r12 R = 0" .
  have "r00 R * r20 R + r01 R * r21 R + r02 R * r22 R
      = (r11 R * r22 R - r12 R * r21 R) * r20 R + (r12 R * r20 R - r10 R * r22 R) * r21 R
        + (r10 R * r21 R - r11 R * r20 R) * r22 R"
    unfolding rot_cof00 [OF rot] rot_cof01 [OF rot] rot_cof02 [OF rot] by simp
  also have "\<dots> = 0"
    by (simp add: algebra_simps)
  finally show "r00 R * r20 R + r01 R * r21 R + r02 R * r22 R = 0" .
  have "r10 R * r20 R + r11 R * r21 R + r12 R * r22 R
      = (r02 R * r21 R - r01 R * r22 R) * r20 R + (r00 R * r22 R - r02 R * r20 R) * r21 R
        + (r01 R * r20 R - r00 R * r21 R) * r22 R"
    unfolding rot_cof10 [OF rot] rot_cof11 [OF rot] rot_cof12 [OF rot] by simp
  also have "\<dots> = 0"
    by (simp add: algebra_simps)
  finally show "r10 R * r20 R + r11 R * r21 R + r12 R * r22 R = 0" .
qed

subsection \<open>The products of quaternion components, read off the matrix\<close>



















subsection \<open>From the products back to the matrix\<close>




subsection \<open>The four branches on a proper rotation matrix\<close>













lemma known_half_turns:
  "matrix_to_quaternion rot_x_pi = Some (0, 1, 0, 0)"
  "matrix_to_quaternion rot_y_pi = Some (0, 0, 1, 0)"
  "matrix_to_quaternion mat_identity = Some (1, 0, 0, 0)"
  by (simp_all add: matrix_to_quaternion_def np_trace_def rot_x_pi_def rot_y_pi_def
      mat_identity_def trace_case_def diag_x_case_def diag_y_case_def np_sqrt_def np_div_def)

section \<open>Initialisation falls back instead of rejecting\<close>

lemma initialize_sensor_frame:
  assumes "initialize_sensor env self = Inr self'"
  shows "\<exists>s r. self' = self\<lparr>sensor := s, reported := r\<rparr>"
proof (cases "select_sensor env self")
  case (Inr s)
  with assms have "self' = self\<lparr>sensor := Some s\<rparr>"
    by (auto simp add: initialize_sensor_def)
  then have "self' = self\<lparr>sensor := Some s, reported := reported self\<rparr>"
    by simp
  then show ?thesis by blast
next
  case (Inl e)
  with assms obtain s where
    "self' = (handle_error (''Failed to initialize sensor: '' @ exn_message e) self)\<lparr>sensor := Some s\<rparr>"
    by (auto simp add: initialize_sensor_def Let_def split: sum.splits)
  then have "self' = self\<lparr>sensor := Some s,
      reported := reported self @ [''Failed to initialize sensor: '' @ exn_message e]\<rparr>"
    by (simp add: handle_error_def)
  then show ?thesis by blast
qed

lemma initialize_algorithm_frame:
  assumes "initialize_algorithm env self = Inr self'"
  shows "\<exists>a r. self' = self\<lparr>slam_algorithm := a, reported := r\<rparr>"
proof (cases "select_algorithm env self")
  case (Inr a)
  with assms have "self' = self\<lparr>slam_algorithm := Some a\<rparr>"
    by (auto simp add: initialize_algorithm_def)
  then have "self' = self\<lparr>slam_algorithm := Some a, reported := reported self\<rparr>"
    by simp
  then show ?thesis by blast
next
  case (Inl e)
  with assms obtain a where
    "self' = (handle_error (''Failed to initialize algorithm: '' @ exn_message e) self)\<lparr>slam_algorithm := Some a\<rparr>"
    by (auto simp add: initialize_algorithm_def Let_def split: sum.splits)
  then have "self' = self\<lparr>slam_algorithm := Some a,
      reported := reported self @ [''Failed to initialize algorithm: '' @ exn_message e]\<rparr>"
    by (simp add: handle_error_def)
  then show ?thesis by blast
qed

lemma initialize_visualization_frame:
  "\<exists>v r. initialize_visualization env self = self\<lparr>visualization := v, reported := r\<rparr>
     \<and> set (reported self) \<subseteq> set r"
proof (cases "viewer_raises env")
  case None
  then have "initialize_visualization env self
      = self\<lparr>visualization := visualization self, reported := reported self\<rparr>"
    by (simp add: initialize_visualization_def)
  then show ?thesis by blast
next
  case (Some e)
  then have "initialize_visualization env self
      = self\<lparr>visualization := False,
          reported := reported self @ [''Failed to initialize visualization: '' @ exn_message e]\<rparr>"
    by (simp add: initialize_visualization_def handle_error_def)
  moreover have "set (reported self)
      \<subseteq> set (reported self @ [''Failed to initialize visualization: '' @ exn_message e])"
    by auto
  ultimately show ?thesis by blast
qed





lemma EasySLAM_init_steps:
  assumes "EasySLAM_init env args = Inr self"
  obtains self2 self3 fusion merger v r where
    "initialize_sensor env (initial_fields args) = Inr self2"
    and "initialize_algorithm env self2 = Inr self3"
    and "create_sensor_fusion env self3 = Inr fusion"
    and "create_map_merger env self3 = Inr merger"
    and "self = self3\<lparr>visualization := v, sensor_fusion := fusion, map_merger := merger,
           reported := r\<rparr>"
    and "set (reported self3) \<subseteq> set r"
proof -
  from assms obtain self2 where s2: "initialize_sensor env (initial_fields args) = Inr self2"
    by (cases "initialize_sensor env (initial_fields args)") (simp_all add: EasySLAM_init_def)
  from assms s2 obtain self3 where s3: "initialize_algorithm env self2 = Inr self3"
    by (cases "initialize_algorithm env self2") (simp_all add: EasySLAM_init_def)
  from assms s2 s3 obtain fusion where fu: "create_sensor_fusion env self3 = Inr fusion"
    by (cases "create_sensor_fusion env self3") (simp_all add: EasySLAM_init_def)
  from assms s2 s3 fu obtain merger where me: "create_map_merger env self3 = Inr merger"
    by (cases "create_map_merger env self3") (simp_all add: EasySLAM_init_def)
  define self4 where "self4 = self3\<lparr>sensor_fusion := fusion, map_merger := merger\<rparr>"
  define self5 where
    "self5 = (if visualization self4 then initialize_visualization env self4 else self4)"
  from assms s2 s3 fu me have fin: "self = self5"
    by (auto simp add: EasySLAM_init_def self4_def self5_def Let_def
        split: option.splits if_splits)
  obtain v r where vr: "self5 = self4\<lparr>visualization := v, reported := r\<rparr>"
    and sub: "set (reported self4) \<subseteq> set r"
  proof (cases "visualization self4")
    case True
    then have "self5 = initialize_visualization env self4" by (simp add: self5_def)
    with initialize_visualization_frame [of env self4] that show ?thesis by metis
  next
    case False
    then have "self5 = self4\<lparr>visualization := visualization self4, reported := reported self4\<rparr>"
      by (simp add: self5_def)
    with that show ?thesis by blast
  qed
  have "self = self3\<lparr>visualization := v, sensor_fusion := fusion, map_merger := merger,
           reported := r\<rparr>"
    by (simp add: fin vr self4_def)
  moreover have "set (reported self3) \<subseteq> set r"
    using sub by (simp add: self4_def)
  ultimately show ?thesis
    using that s2 s3 fu me by blast
qed







section \<open>The accessors of features that were not enabled\<close>

lemma fuse_visual_without_fusion:
  "sensor_fusion self = None \<Longrightarrow> fuse_visual env p self = Inr self"
  by (simp add: fuse_visual_def)

lemma merge_session_without_merger:
  "map_merger self = None \<Longrightarrow> merge_session env self = Inr self"
  by (simp add: merge_session_def)

lemma fuse_visual_frame:
  assumes "fuse_visual env p self = Inr self'"
  shows "\<exists>f. self' = self\<lparr>sensor_fusion := f\<rparr>"
proof (cases "sensor_fusion self")
  case None
  with assms have "self' = self" by (simp add: fuse_visual_def)
  then have "self' = self\<lparr>sensor_fusion := sensor_fusion self\<rparr>" by simp
  then show ?thesis ..
next
  case (Some f)
  show ?thesis
  proof (cases "fusion_truthy env f")
    case False
    with Some assms have "self' = self" by (simp add: fuse_visual_def)
    then have "self' = self\<lparr>sensor_fusion := sensor_fusion self\<rparr>" by simp
    then show ?thesis ..
  next
    case True
    with Some assms obtain f' where "self' = self\<lparr>sensor_fusion := Some f'\<rparr>"
      by (auto simp add: fuse_visual_def split: sum.splits)
    then show ?thesis ..
  qed
qed

lemma merge_session_frame:
  assumes "merge_session env self = Inr self'"
  shows "\<exists>m. self' = self\<lparr>map_merger := m\<rparr>"
proof (cases "\<exists>m d. map_merger self = Some m \<and> map_data self = Some d
    \<and> merger_truthy env m \<and> map_truthy env d")
  case True
  then obtain m d where "map_merger self = Some m" "map_data self = Some d"
    "merger_truthy env m" "map_truthy env d"
    by blast
  with assms obtain m' where "self' = self\<lparr>map_merger := Some m'\<rparr>"
    by (auto simp add: merge_session_def split: sum.splits)
  then show ?thesis ..
next
  case False
  with assms have "self' = self"
    by (auto simp add: merge_session_def split: option.splits if_splits)
  then have "self' = self\<lparr>map_merger := map_merger self\<rparr>" by simp
  then show ?thesis ..
qed

lemma process_loop_step_fusion:
  assumes "sensor_fusion self = None"
  shows "sensor_fusion (fst (process_loop_step env self fr)) = None"
proof (cases fr)
  case SensorNone
  with assms show ?thesis by (simp add: process_loop_step_def)
next
  case ResultNone
  with assms show ?thesis by (simp add: process_loop_step_def)
next
  case (FrameRaises e)
  with assms show ?thesis by (simp add: process_loop_step_def handle_error_def)
next
  case (Result p m)
  define self2 where
    "self2 = (case m of None \<Rightarrow> self\<lparr>trajectory := trajectory self @ [p]\<rparr>
              | Some d \<Rightarrow> self\<lparr>trajectory := trajectory self @ [p], map_data := Some d\<rparr>)"
  have none2: "sensor_fusion self2 = None"
    using assms by (simp add: self2_def split: option.splits)
  have step: "process_loop_step env self fr =
      (case merge_session env self2 of
         Inl e \<Rightarrow> (handle_error (exn_message e) self2, False)
       | Inr self4 \<Rightarrow> (self4, True))"
    using fuse_visual_without_fusion [OF none2, of env p]
    by (simp add: process_loop_step_def Result self2_def Let_def split: option.splits
        cong: sum.case_cong)
  show ?thesis
  proof (cases "merge_session env self2")
    case (Inl e)
    with step none2 show ?thesis by (simp add: handle_error_def)
  next
    case (Inr self4)
    with merge_session_frame [OF Inr] step none2 show ?thesis by auto
  qed
qed

lemma process_loop_step_merger:
  assumes "map_merger self = None"
  shows "map_merger (fst (process_loop_step env self fr)) = None"
proof (cases fr)
  case SensorNone
  with assms show ?thesis by (simp add: process_loop_step_def)
next
  case ResultNone
  with assms show ?thesis by (simp add: process_loop_step_def)
next
  case (FrameRaises e)
  with assms show ?thesis by (simp add: process_loop_step_def handle_error_def)
next
  case (Result p m)
  define self2 where
    "self2 = (case m of None \<Rightarrow> self\<lparr>trajectory := trajectory self @ [p]\<rparr>
              | Some d \<Rightarrow> self\<lparr>trajectory := trajectory self @ [p], map_data := Some d\<rparr>)"
  have none2: "map_merger self2 = None"
    using assms by (simp add: self2_def split: option.splits)
  show ?thesis
  proof (cases "fuse_visual env p self2")
    case (Inl e)
    then have "process_loop_step env self fr = (handle_error (exn_message e) self2, False)"
      by (simp add: process_loop_step_def Result self2_def Let_def split: option.splits)
    with none2 show ?thesis by (simp add: handle_error_def)
  next
    case (Inr self3)
    from fuse_visual_frame [OF Inr] none2 have none3: "map_merger self3 = None"
      by auto
    from Inr merge_session_without_merger [OF none3, of env]
    have "process_loop_step env self fr = (self3, True)"
      by (simp add: process_loop_step_def Result self2_def Let_def split: option.splits)
    with none3 show ?thesis by simp
  qed
qed

lemma process_loop_fusion:
  "sensor_fusion self = None \<Longrightarrow> sensor_fusion (process_loop env self frs) = None"
proof (induction frs arbitrary: self)
  case Nil
  then show ?case by simp
next
  case (Cons fr frs)
  obtain self' go where st: "process_loop_step env self fr = (self', go)"
    by (cases "process_loop_step env self fr")
  with process_loop_step_fusion [OF Cons.prems, of env fr] have "sensor_fusion self' = None"
    by simp
  with Cons.IH [of self'] Cons.prems st show ?case
    by (cases go) simp_all
qed

lemma process_loop_merger:
  "map_merger self = None \<Longrightarrow> map_merger (process_loop env self frs) = None"
proof (induction frs arbitrary: self)
  case Nil
  then show ?case by simp
next
  case (Cons fr frs)
  obtain self' go where st: "process_loop_step env self fr = (self', go)"
    by (cases "process_loop_step env self fr")
  with process_loop_step_merger [OF Cons.prems, of env fr] have "map_merger self' = None"
    by simp
  with Cons.IH [of self'] Cons.prems st show ?case
    by (cases go) simp_all
qed

lemma call_method_fusion:
  "sensor_fusion self = None \<Longrightarrow> sensor_fusion (call_method env self c) = None"
  by (cases c)
     (simp_all add: process_loop_fusion realtime_step_def offline_step_def handle_error_def
        start_running_def stop_def Let_def split: option.splits)

lemma call_method_merger:
  "map_merger self = None \<Longrightarrow> map_merger (call_method env self c) = None"
  by (cases c)
     (simp_all add: process_loop_merger realtime_step_def offline_step_def handle_error_def
        start_running_def stop_def Let_def split: option.splits)

lemma after_calls_fusion:
  "sensor_fusion self = None \<Longrightarrow> sensor_fusion (after_calls env self calls) = None"
  unfolding after_calls_def
  by (induction calls arbitrary: self) (simp_all add: call_method_fusion)

lemma after_calls_merger:
  "map_merger self = None \<Longrightarrow> map_merger (after_calls env self calls) = None"
  unfolding after_calls_def
  by (induction calls arbitrary: self) (simp_all add: call_method_merger)

lemma init_disabled:
  assumes init: "EasySLAM_init env args = Inr self"
  shows "\<not> arg_enable_sensor_fusion args \<Longrightarrow> sensor_fusion self = None"
    and "\<not> arg_enable_map_merging args \<Longrightarrow> map_merger self = None"
proof -
  from init obtain self2 self3 fusion merger v r where
    s2: "initialize_sensor env (initial_fields args) = Inr self2"
    and s3: "initialize_algorithm env self2 = Inr self3"
    and fu: "create_sensor_fusion env self3 = Inr fusion"
    and me: "create_map_merger env self3 = Inr merger"
    and fin: "self = self3\<lparr>visualization := v, sensor_fusion := fusion, map_merger := merger,
           reported := r\<rparr>"
    by (rule EasySLAM_init_steps)
  from initialize_sensor_frame [OF s2] initialize_algorithm_frame [OF s3]
  have flags: "enable_sensor_fusion self3 = arg_enable_sensor_fusion args"
    "enable_map_merging self3 = arg_enable_map_merging args"
    by (auto simp add: initial_fields_def)
  show "sensor_fusion self = None" if "\<not> arg_enable_sensor_fusion args"
    using that fu flags fin by (simp add: create_sensor_fusion_def)
  show "map_merger self = None" if "\<not> arg_enable_map_merging args"
    using that me flags fin by (simp add: create_map_merger_def)
qed

text \<open>
  C10. For every instance the constructor returns with \<open>enable_sensor_fusion=False\<close>, after
  any sequence of calls of its methods, \<open>get_fused_pose()\<close> returns \<open>None\<close>: it does not
  raise and returns no pose. For every instance constructed with
  \<open>enable_map_merging=False\<close>, after any such sequence \<open>get_global_map()\<close> returns the
  current \<open>map_data\<close> of the instance.
\<close>

theorem accessors_of_disabled_features:
  assumes init: "EasySLAM_init env args = Inr self"
  shows "(\<not> arg_enable_sensor_fusion args \<longrightarrow>
            get_fused_pose env (after_calls env self calls) = Inr None)
       \<and> (\<not> arg_enable_map_merging args \<longrightarrow>
            get_global_map env (after_calls env self calls)
              = Inr (map_data (after_calls env self calls)))"
proof (intro conjI impI)
  assume "\<not> arg_enable_sensor_fusion args"
  then have "sensor_fusion self = None"
    by (rule init_disabled(1) [OF init])
  then have "sensor_fusion (after_calls env self calls) = None"
    by (rule after_calls_fusion)
  then show "get_fused_pose env (after_calls env self calls) = Inr None"
    by (simp add: get_fused_pose_def)
next
  assume "\<not> arg_enable_map_merging args"
  then have "map_merger self = None"
    by (rule init_disabled(2) [OF init])
  then have "map_merger (after_calls env self calls) = None"
    by (rule after_calls_merger)
  then show "get_global_map env (after_calls env self calls)
      = Inr (map_data (after_calls env self calls))"
    by (simp add: get_global_map_def)
qed

theorem accessors_of_disabled_features_witness:
  "\<not> isl (EasySLAM_init quiet default_args) \<and>
   \<not> arg_enable_sensor_fusion default_args \<and> \<not> arg_enable_map_merging default_args \<and>
   get_fused_pose quiet
     (after_calls quiet (projr (EasySLAM_init quiet default_args))
        [StartRunning, ProcessLoop [Result unit_pose (Some ())], Stop]) = Inr None \<and>
   get_global_map quiet
     (after_calls quiet (projr (EasySLAM_init quiet default_args))
        [StartRunning, ProcessLoop [Result unit_pose (Some ())], Stop]) = Inr (Some ())"
proof -
  define made where "made = projr (EasySLAM_init quiet default_args)"
  define calls :: "unit method_call list" where
    "calls = [StartRunning, ProcessLoop [Result unit_pose (Some ())], Stop]"
  have h1: "\<not> isl (EasySLAM_init quiet default_args)"
    by (simp add: EasySLAM_init_def initial_fields_def load_configuration_def
      initialize_sensor_def select_sensor_def construct_sensor_def
      initialize_algorithm_def select_algorithm_def construct_algorithm_def
      create_sensor_fusion_def create_map_merger_def initialize_visualization_def
      handle_error_def quiet_def default_args_def Let_def)
  then have h2: "EasySLAM_init quiet default_args = Inr made"
    by (simp add: made_def)
  have h3: "\<not> arg_enable_sensor_fusion default_args" "\<not> arg_enable_map_merging default_args"
    by (simp_all add: default_args_def)
  from accessors_of_disabled_features [OF h2, of calls] h3
  have a: "get_fused_pose quiet (after_calls quiet made calls) = Inr None"
    and b: "get_global_map quiet (after_calls quiet made calls)
              = Inr (map_data (after_calls quiet made calls))"
    by blast+
  have nm: "map_merger made = None" and nf: "sensor_fusion made = None"
    using init_disabled [OF h2] h3 by blast+
  have run: "running (start_running made) = True"
    by (simp add: start_running_def)
  have "map_data (after_calls quiet made calls) = Some ()"
    using nm nf
    by (simp add: after_calls_def calls_def start_running_def stop_def process_loop_step_def
        fuse_visual_def merge_session_def Let_def)
  with a b h1 h3 show ?thesis
    unfolding made_def calls_def by simp
qed

section \<open>The State Fuser refuses an invalid elapsed time\<close>

lemma elapsed_invalid_cases:
  "elapsed_invalid (elapsed_time ts previous) \<longleftrightarrow>
     (case ts of Finite t \<Rightarrow> t - previous \<le> 0 | _ \<Rightarrow> True)"
  by (cases ts) (simp_all add: elapsed_invalid_def elapsed_time_def)

text \<open>
  C2. Whenever the elapsed time since the last processed measurement is zero, negative
  or non-finite, \<open>add_inertial\<close> returns the diagnostic flag and the state it was given:
  position, velocity, orientation, covariance and the time of the last update are all
  unchanged. This holds for every configuration and every angular velocity and
  acceleration.
\<close>

theorem add_inertial_invalid_elapsed_noop:
  assumes "elapsed_invalid (elapsed_time ts (last_update st))"
  shows "add_inertial cfg st angular_velocity linear_acceleration ts = (ElapsedTimeRejected, st)"
proof (cases ts)
  case (Finite t)
  with assms have "t - last_update st \<le> 0"
    by (simp add: elapsed_invalid_cases)
  with Finite show ?thesis
    by (simp add: add_inertial_def elapsed_time_def)
next
  case PosInf
  then show ?thesis by (simp add: add_inertial_def elapsed_time_def)
next
  case NegInf
  then show ?thesis by (simp add: add_inertial_def elapsed_time_def)
next
  case NaN
  then show ?thesis by (simp add: add_inertial_def elapsed_time_def)
qed

theorem add_inertial_invalid_elapsed_noop_witness:
  "elapsed_invalid (elapsed_time (Finite 5) (last_update (initial_state example_config 5))) \<and>
   add_inertial example_config (initial_state example_config 5) (0, 0, 1) (0, 0, 0) (Finite 5)
     = (ElapsedTimeRejected, initial_state example_config 5) \<and>
   elapsed_invalid (elapsed_time NaN (last_update (initial_state example_config 5))) \<and>
   add_inertial example_config (initial_state example_config 5) (0, 0, 1) (0, 0, 0) NaN
     = (ElapsedTimeRejected, initial_state example_config 5)"
proof -
  have h1: "elapsed_invalid (elapsed_time (Finite 5) (last_update (initial_state example_config 5)))"
    by (simp add: elapsed_invalid_def elapsed_time_def initial_state_def)
  have h2: "elapsed_invalid (elapsed_time NaN (last_update (initial_state example_config 5)))"
    by (simp add: elapsed_invalid_def elapsed_time_def)
  from add_inertial_invalid_elapsed_noop [OF h1] add_inertial_invalid_elapsed_noop [OF h2] h1 h2
  show ?thesis by blast
qed

lemma add_inertial_valid_elapsed:
  assumes "ts = Finite t" and "0 < t - last_update st"
  shows "add_inertial cfg st w a ts
     = (Integrated, propagate cfg st w a (min (t - last_update st) (dt_max cfg)) t)"
  using assms by (simp add: add_inertial_def elapsed_time_def)

section \<open>The first session of a Mapper\<close>





end
